theory Spec2Isabelle
  imports Main
begin

section \<open>The notification engine of the dashboard (src/contexts/NotificationContext.tsx)\<close>

text \<open>
  The provider component keeps three pieces of React state (settings, notifications,
  unreadCount), two flags (pushSupported, initialized), one module-level counter and one
  module-level default-settings object, and talks to the browser: localStorage, the
  Notification API, the clock and the random generator. The model passes the React and
  module state around explicitly in the record \<open>provider\<close> and reads everything the browser
  decides from the record \<open>platform\<close>. Text is a list of bytes; the letters of the source
  outside ASCII appear as their UTF-8 bytes.
\<close>

subsection \<open>Data model (lines 6-24 and the collaborators' types)\<close>

record NotificationSettings =
  email :: bool
  push :: bool
  weeklySummary :: bool
  taskReminders :: bool
  deadlineAlerts :: bool
  teamUpdates :: bool

text \<open>\<open>Partial<NotificationSettings>\<close>: every field may be missing.\<close>

record PartialSettings =
  p_email :: "bool option"
  p_push :: "bool option"
  p_weeklySummary :: "bool option"
  p_taskReminders :: "bool option"
  p_deadlineAlerts :: "bool option"
  p_teamUpdates :: "bool option"

datatype ntype = Email | Push | System

datatype category = Deadline | Task | Team | Summary | Project

record User =
  uid :: string
  uname :: string

datatype status = Planning | In_progress | Review | Completed | On_hold

text \<open>
  The fields of a project that the evaluators and listeners read; a field that is missing,
  null or undefined is \<open>None\<close>.
\<close>

record project =
  pid :: string
  pname :: string
  pstatus :: status
  due_date :: "string option"
  deadline :: "string option"
  progress :: "int option"
  budget :: "int option"
  created_at_p :: "string option"
  updated_at_p :: "string option"

text \<open>The \<open>data\<close> field is \<open>any\<close>; these are the shapes the file builds.\<close>

datatype payload =
    NoData
  | ProjectData string
  | TaskData nat "string list"
  | SummaryData nat nat nat nat int int
  | TeamData string User
  | CreatedData string User

record Notification =
  nid :: string
  ntype :: ntype
  ncategory :: category
  title :: string
  message :: string
  ndata :: payload
  read :: bool
  created_at :: string

text \<open>What a caller of \<open>sendNotification\<close> supplies: a notification without id, read, created_at.\<close>

record Candidate =
  c_type :: ntype
  c_category :: category
  c_title :: string
  c_message :: string
  c_data :: payload

subsection \<open>The browser\<close>

text \<open>
  \<open>Notification.permission\<close> is one of 'default', 'granted', 'denied';
  \<open>Notification.requestPermission()\<close> resolves to one of them or rejects. What
  localStorage holds under a key is a text; the model keeps what \<open>JSON.parse\<close> makes of it: an
  object with some of the settings fields, an array of notifications, or nothing
  (\<open>Unparseable\<close>, a non-empty text on which \<open>JSON.parse\<close> throws).
\<close>

datatype permission = Default_permission | Granted | Denied

datatype request_outcome = Resolves permission | Rejects

datatype stored =
    Settings_blob PartialSettings
  | Notifications_blob "Notification list"
  | Unparseable

datatype storage_op = SetItem string stored | RemoveItem string

text \<open>
  \<open>items\<close> is what localStorage holds (newest binding of a key first); \<open>journal\<close> lists the
  writes and removals that took effect, oldest first, as a spy on the store would see them.
\<close>

record localStorage =
  items :: "(string \<times> stored) list"
  journal :: "storage_op list"

text \<open>A native alert with its title, body and tag.\<close>

datatype native_alert = Native_alert string string string

text \<open>
  What the browser answers during one operation: whether \<open>'Notification' in window\<close> and
  \<open>'serviceWorker' in navigator\<close> hold, the current permission, the outcome of a permission
  request, whether \<open>new Notification\<close> throws, whether \<open>localStorage.setItem\<close> throws (quota
  exceeded), the clock in milliseconds since the epoch, the six characters that
  \<open>Math.random().toString(36).substring(2, 8)\<close> gives at the n-th call of the id generator,
  \<open>new Date(text).getTime()\<close> (\<open>None\<close> for an invalid date), and the two renderings
  \<open>toISOString\<close> and \<open>toLocaleString\<close>.
\<close>

record platform =
  Notification_in_window :: bool
  serviceWorker_in_navigator :: bool
  Notification_permission :: permission
  Notification_requestPermission :: request_outcome
  Notification_constructor_throws :: bool
  setItem_throws :: bool
  Date_now :: int
  Math_random :: "nat \<Rightarrow> string"
  Date_parse :: "string \<Rightarrow> int option"
  toISOString :: "int \<Rightarrow> string"
  toLocaleString :: "int \<Rightarrow> string"

datatype error = QuotaExceededError

definition getItem :: "localStorage \<Rightarrow> string \<Rightarrow> stored option" where
  "getItem st k = map_of (items st) k"

definition setItem :: "platform \<Rightarrow> string \<Rightarrow> stored \<Rightarrow> localStorage \<Rightarrow> error + localStorage" where
  "setItem env k v st =
     (if setItem_throws env then Inl QuotaExceededError
      else Inr (st\<lparr>items := (k, v) # filter (\<lambda>kv. fst kv \<noteq> k) (items st),
                   journal := journal st @ [SetItem k v]\<rparr>))"

definition removeItem :: "string \<Rightarrow> localStorage \<Rightarrow> localStorage" where
  "removeItem k st =
     st\<lparr>items := filter (\<lambda>kv. fst kv \<noteq> k) (items st), journal := journal st @ [RemoveItem k]\<rparr>"

subsection \<open>The provider's state\<close>

text \<open>
  \<open>user\<close> and \<open>projects\<close> come from the two other contexts; \<open>projects\<close> is always an array
  there, so the test \<open>!projects\<close> of the evaluators never fires. \<open>notificationCounter\<close> and
  \<open>defaultSettings\<close> are the module-level variables. \<open>storage\<close> is localStorage, \<open>alerts\<close> the
  native alerts shown so far, \<open>console_errors\<close> the messages passed to \<open>console.error\<close>. Every
  operation is applied to the state of the last render.
\<close>

record provider =
  user :: "User option"
  projects :: "project list"
  settings :: NotificationSettings
  notifications :: "Notification list"
  unreadCount :: nat
  pushSupported :: bool
  initialized :: bool
  notificationCounter :: nat
  defaultSettings :: NotificationSettings
  storage :: localStorage
  alerts :: "native_alert list"
  console_errors :: "string list"

text \<open>
  An operation either runs to its end or stops at an exception nobody catches; in both cases
  the state reached is kept.
\<close>

datatype outcome = Done provider | Threw error provider

fun state_of :: "outcome \<Rightarrow> provider" where
  "state_of (Done s) = s"
| "state_of (Threw e s) = s"

fun thrown :: "outcome \<Rightarrow> error option" where
  "thrown (Done s) = None"
| "thrown (Threw e s) = Some e"

subsection \<open>Rendering numbers in template strings\<close>

definition digit :: "nat \<Rightarrow> char" where
  "digit d = ''0123456789'' ! d"

function decimal :: "int \<Rightarrow> string" where
  "decimal i = (if i < 10 then [digit (nat i)] else decimal (i div 10) @ [digit (nat (i mod 10))])"
  by pat_completeness auto
termination
  by (relation "measure nat") auto

definition decimal_of_int :: "int \<Rightarrow> string" where
  "decimal_of_int i = (if 0 \<le> i then decimal i else CHR ''-'' # decimal (- i))"

definition decimal_of_nat :: "nat \<Rightarrow> string" where
  "decimal_of_nat n = decimal (int n)"

subsection \<open>Storage keys\<close>

definition settings_key :: "User \<Rightarrow> string" where
  "settings_key u = ''notification_settings_'' @ uid u"

definition notifications_key :: "User \<Rightarrow> string" where
  "notifications_key u = ''notifications_'' @ uid u"

subsection \<open>generateUniqueNotificationId (lines 52-61)\<close>

definition generateUniqueNotificationId :: "platform \<Rightarrow> provider \<Rightarrow> string \<times> provider" where
  "generateUniqueNotificationId env s =
     (let c = notificationCounter s + 1;
          timestamp = Date_now env;
          random = Math_random env c
      in (''notification-'' @ decimal_of_int timestamp @ ''-'' @ decimal_of_nat c @ ''-''
            @ random,
          s\<lparr>notificationCounter := c\<rparr>))"

subsection \<open>Array helpers\<close>

fun findIndex :: "('a \<Rightarrow> bool) \<Rightarrow> 'a list \<Rightarrow> int" where
  "findIndex P [] = - 1"
| "findIndex P (x # xs) =
     (if P x then 0 else (let i = findIndex P xs in if i = - 1 then - 1 else i + 1))"

definition unread :: "Notification list \<Rightarrow> nat" where
  "unread ns = length (filter (\<lambda>n. \<not> read n) ns)"

subsection \<open>sendNotification (lines 166-208)\<close>

text \<open>
  The function handed to \<open>setNotifications\<close> (lines 177-186). It also writes the new ledger to
  localStorage, so it can throw.
\<close>

definition ledger_updater ::
  "platform \<Rightarrow> User \<Rightarrow> Notification \<Rightarrow> Notification list \<Rightarrow> localStorage
     \<Rightarrow> error + (Notification list \<times> localStorage)" where
  "ledger_updater env u newNotification prev st =
     (let existingIndex = findIndex (\<lambda>n. nid n = nid newNotification) prev
      in if existingIndex \<noteq> - 1 then Inr (prev, st)
         else (let updated = take 50 (newNotification # prev)
               in case setItem env (notifications_key u) (Notifications_blob updated) st of
                    Inl e \<Rightarrow> Inl e
                  | Inr st' \<Rightarrow> Inr (updated, st')))"

text \<open>Lines 190-207: the native alert, built only when push is on, supported and granted.\<close>

definition dispatch_push :: "platform \<Rightarrow> Notification \<Rightarrow> provider \<Rightarrow> provider" where
  "dispatch_push env n s =
     (if push (settings s) \<and> pushSupported s \<and> Notification_permission env = Granted
      then (if Notification_constructor_throws env
            then s\<lparr>console_errors := console_errors s @ [''Error sending push notification:'']\<rparr>
            else s\<lparr>alerts := alerts s @ [Native_alert (title n) (message n) (nid n)]\<rparr>)
      else s)"

definition new_notification :: "platform \<Rightarrow> string \<Rightarrow> Candidate \<Rightarrow> Notification" where
  "new_notification env i c =
     \<lparr>nid = i, ntype = c_type c, ncategory = c_category c, title = c_title c,
      message = c_message c, ndata = c_data c, read = False,
      created_at = toISOString env (Date_now env)\<rparr>"

text \<open>
  React applies the queued updates in the order of the calls. When the updater throws, no
  new ledger exists and the render that runs it fails: the model reports the exception and
  leaves the React state as it was; what the call did outside React (the counter, the native
  alert) has happened.
\<close>

definition sendNotification :: "platform \<Rightarrow> Candidate \<Rightarrow> provider \<Rightarrow> outcome" where
  "sendNotification env notification s =
     (case user s of
        None \<Rightarrow> Done s
      | Some u \<Rightarrow>
          (let (i, s1) = generateUniqueNotificationId env s;
               newNotification = new_notification env i notification
           in case ledger_updater env u newNotification (notifications s1) (storage s1) of
                Inl e \<Rightarrow> Threw e (dispatch_push env newNotification s1)
              | Inr (updated, st') \<Rightarrow>
                  Done (dispatch_push env newNotification
                          (s1\<lparr>notifications := updated, storage := st',
                              unreadCount := unreadCount s1 + 1\<rparr>))))"

subsection \<open>markAsRead, markAllAsRead, clearAll (lines 210-240)\<close>

definition markAsRead :: "platform \<Rightarrow> string \<Rightarrow> provider \<Rightarrow> outcome" where
  "markAsRead env notificationId s =
     (case user s of
        None \<Rightarrow> Done s
      | Some u \<Rightarrow>
          (let updatedNotifications =
                 map (\<lambda>n. if nid n = notificationId then n\<lparr>read := True\<rparr> else n) (notifications s);
               s1 = s\<lparr>notifications := updatedNotifications,
                      unreadCount := unread updatedNotifications\<rparr>
           in case setItem env (notifications_key u) (Notifications_blob updatedNotifications)
                     (storage s1) of
                Inl e \<Rightarrow> Threw e s1
              | Inr st' \<Rightarrow> Done (s1\<lparr>storage := st'\<rparr>)))"

definition markAllAsRead :: "platform \<Rightarrow> provider \<Rightarrow> outcome" where
  "markAllAsRead env s =
     (case user s of
        None \<Rightarrow> Done s
      | Some u \<Rightarrow>
          (let updatedNotifications = map (\<lambda>n. n\<lparr>read := True\<rparr>) (notifications s);
               s1 = s\<lparr>notifications := updatedNotifications, unreadCount := 0\<rparr>
           in case setItem env (notifications_key u) (Notifications_blob updatedNotifications)
                     (storage s1) of
                Inl e \<Rightarrow> Threw e s1
              | Inr st' \<Rightarrow> Done (s1\<lparr>storage := st'\<rparr>)))"

definition clearAll :: "platform \<Rightarrow> provider \<Rightarrow> outcome" where
  "clearAll env s =
     (case user s of
        None \<Rightarrow> Done s
      | Some u \<Rightarrow>
          Done (s\<lparr>notifications := [], unreadCount := 0,
                  storage := removeItem (notifications_key u) (storage s)\<rparr>))"

subsection \<open>Settings: defaults, spreading, the two effects at the top (lines 43-50, 73-131)\<close>

definition defaultSettings0 :: NotificationSettings where
  "defaultSettings0 =
     \<lparr>email = True, push = False, weeklySummary = False, taskReminders = True,
      deadlineAlerts = True, teamUpdates = True\<rparr>"

text \<open>\<open>{ ...base, ...partial }\<close>\<close>

definition spread :: "NotificationSettings \<Rightarrow> PartialSettings \<Rightarrow> NotificationSettings" where
  "spread base p =
     \<lparr>email = (case p_email p of None \<Rightarrow> email base | Some b \<Rightarrow> b),
      push = (case p_push p of None \<Rightarrow> push base | Some b \<Rightarrow> b),
      weeklySummary = (case p_weeklySummary p of None \<Rightarrow> weeklySummary base | Some b \<Rightarrow> b),
      taskReminders = (case p_taskReminders p of None \<Rightarrow> taskReminders base | Some b \<Rightarrow> b),
      deadlineAlerts = (case p_deadlineAlerts p of None \<Rightarrow> deadlineAlerts base | Some b \<Rightarrow> b),
      teamUpdates = (case p_teamUpdates p of None \<Rightarrow> teamUpdates base | Some b \<Rightarrow> b)\<rparr>"

text \<open>\<open>JSON.stringify\<close> of full settings, as \<open>JSON.parse\<close> gives it back.\<close>

definition stringify_settings :: "NotificationSettings \<Rightarrow> stored" where
  "stringify_settings x =
     Settings_blob
       \<lparr>p_email = Some (email x), p_push = Some (push x),
        p_weeklySummary = Some (weeklySummary x), p_taskReminders = Some (taskReminders x),
        p_deadlineAlerts = Some (deadlineAlerts x), p_teamUpdates = Some (teamUpdates x)\<rparr>"

definition no_fields :: PartialSettings where
  "no_fields =
     \<lparr>p_email = None, p_push = None, p_weeklySummary = None, p_taskReminders = None,
      p_deadlineAlerts = None, p_teamUpdates = None\<rparr>"

text \<open>Lines 74-78.\<close>

definition detect_push_support :: "platform \<Rightarrow> provider \<Rightarrow> provider" where
  "detect_push_support env s =
     (if Notification_in_window env \<and> serviceWorker_in_navigator env
      then s\<lparr>pushSupported := True\<rparr> else s)"

text \<open>
  Lines 84-94. The result says whether \<open>userSettings\<close> is still the module's
  \<open>defaultSettings\<close> object itself (nothing stored, or the stored text did not parse) or a
  fresh copy; a stored array spreads no settings field.
\<close>

definition load_settings :: "User \<Rightarrow> provider \<Rightarrow> (NotificationSettings \<times> bool) \<times> provider" where
  "load_settings u s =
     (case getItem (storage s) (settings_key u) of
        None \<Rightarrow> ((defaultSettings s, True), s)
      | Some (Settings_blob parsedSettings) \<Rightarrow>
          ((spread (defaultSettings s) parsedSettings, False), s)
      | Some (Notifications_blob xs) \<Rightarrow> ((spread (defaultSettings s) no_fields, False), s)
      | Some Unparseable \<Rightarrow>
          ((defaultSettings s, True),
           s\<lparr>console_errors := console_errors s @ [''Error loading notification settings:'']\<rparr>))"

text \<open>Lines 96-105.\<close>

definition sync_permission :: "platform \<Rightarrow> provider \<Rightarrow> NotificationSettings \<Rightarrow> NotificationSettings" where
  "sync_permission env s userSettings =
     (if pushSupported s \<and> Notification_in_window env
      then (if Notification_permission env = Granted \<and> \<not> push userSettings
            then userSettings\<lparr>push := True\<rparr>
            else if Notification_permission env = Denied
            then userSettings\<lparr>push := False\<rparr>
            else userSettings)
      else userSettings)"

text \<open>Lines 115-117: keep an entry only at the first index that holds its id.\<close>

definition uniqueNotifications :: "Notification list \<Rightarrow> Notification list" where
  "uniqueNotifications parsed =
     map snd (filter (\<lambda>(index, notification).
                         int index = findIndex (\<lambda>n. nid n = nid notification) parsed)
                     (enumerate 0 parsed))"

text \<open>Lines 110-128; every exception inside is caught and logged.\<close>

definition load_notifications :: "platform \<Rightarrow> User \<Rightarrow> provider \<Rightarrow> provider" where
  "load_notifications env u s =
     (let failed = s\<lparr>console_errors := console_errors s @ [''Error loading notifications:'']\<rparr>
      in case getItem (storage s) (notifications_key u) of
           None \<Rightarrow> s
         | Some (Notifications_blob parsedNotifications) \<Rightarrow>
             (let unique = uniqueNotifications parsedNotifications;
                  loaded = (\<lambda>st. s\<lparr>storage := st, notifications := unique,
                                    unreadCount := unread unique\<rparr>)
              in if length unique \<noteq> length parsedNotifications
                 then (case setItem env (notifications_key u) (Notifications_blob unique)
                              (storage s) of
                         Inl e \<Rightarrow> failed
                       | Inr st' \<Rightarrow> loaded st')
                 else loaded (storage s))
         | Some (Settings_blob x) \<Rightarrow> failed
         | Some Unparseable \<Rightarrow> failed)"

text \<open>
  The effect of lines 81-131. A write through \<open>userSettings\<close> while it is the module's
  object changes \<open>defaultSettings\<close> too.
\<close>

definition initialize_effect :: "platform \<Rightarrow> provider \<Rightarrow> outcome" where
  "initialize_effect env s =
     (case user s of
        None \<Rightarrow> Done s
      | Some u \<Rightarrow>
          if initialized s then Done s
          else (let ((loadedSettings, is_module_object), s1) = load_settings u s;
                    userSettings = sync_permission env s1 loadedSettings;
                    s2 = (if is_module_object then s1\<lparr>defaultSettings := userSettings\<rparr> else s1);
                    s3 = s2\<lparr>settings := userSettings\<rparr>
                in case setItem env (settings_key u) (stringify_settings userSettings)
                          (storage s3) of
                     Inl e \<Rightarrow> Threw e s3
                   | Inr st' \<Rightarrow>
                       Done ((load_notifications env u (s3\<lparr>storage := st'\<rparr>))
                               \<lparr>initialized := True\<rparr>)))"

text \<open>
  Mounting: the first render has \<open>pushSupported = false\<close> and both effects run against it;
  the render after \<open>setPushSupported\<close> runs the second effect again. A later change of the
  signed-in user changes the dependency \<open>user?.id\<close> and runs it once more.
\<close>

definition mount :: "platform \<Rightarrow> User option \<Rightarrow> project list \<Rightarrow> localStorage \<Rightarrow> outcome" where
  "mount env u ps st =
     (let s0 = \<lparr>user = u, projects = ps, settings = defaultSettings0, notifications = [],
                unreadCount = 0, pushSupported = False, initialized = False,
                notificationCounter = 0, defaultSettings = defaultSettings0, storage = st,
                alerts = [], console_errors = []\<rparr>
      in case initialize_effect env s0 of
           Threw e s1 \<Rightarrow> Threw e (detect_push_support env s1)
         | Done s1 \<Rightarrow> initialize_effect env (detect_push_support env s1))"

definition user_changed :: "platform \<Rightarrow> User option \<Rightarrow> provider \<Rightarrow> outcome" where
  "user_changed env u s = initialize_effect env (s\<lparr>user := u\<rparr>)"

subsection \<open>requestPushPermission and updateSettings (lines 133-163)\<close>

definition requestPushPermission :: "platform \<Rightarrow> provider \<Rightarrow> bool \<times> provider" where
  "requestPushPermission env s =
     (if \<not> pushSupported s then (False, s)
      else (case Notification_requestPermission env of
              Resolves permission \<Rightarrow> (permission = Granted, s)
            | Rejects \<Rightarrow>
                (False,
                 s\<lparr>console_errors := console_errors s @ [''Error requesting push permission:'']\<rparr>)))"

definition updateSettings :: "platform \<Rightarrow> PartialSettings \<Rightarrow> provider \<Rightarrow> outcome" where
  "updateSettings env newSettings s =
     (case user s of
        None \<Rightarrow> Done s
      | Some u \<Rightarrow>
          (let updatedSettings = spread (settings s) newSettings;
               s1 = s\<lparr>settings := updatedSettings\<rparr>
           in case setItem env (settings_key u) (stringify_settings updatedSettings)
                     (storage s1) of
                Inl e \<Rightarrow> Threw e s1
              | Inr st1 \<Rightarrow>
                  (let s2 = s1\<lparr>storage := st1\<rparr>
                   in if p_push newSettings = Some True \<and> pushSupported s
                      then (let (granted, s3) = requestPushPermission env s2
                            in if \<not> granted
                               then (let revertedSettings = updatedSettings\<lparr>push := False\<rparr>;
                                         s4 = s3\<lparr>settings := revertedSettings\<rparr>
                                     in case setItem env (settings_key u)
                                               (stringify_settings revertedSettings)
                                               (storage s4) of
                                          Inl e \<Rightarrow> Threw e s4
                                        | Inr st2 \<Rightarrow> Done (s4\<lparr>storage := st2\<rparr>))
                               else Done s3)
                      else Done s2)))"

subsection \<open>Rule evaluators (lines 242-384)\<close>

text \<open>
  Each evaluator calls \<open>sendNotification\<close> without waiting for it, so a send that fails does
  not stop the sends after it: the first exception is the one reported.
\<close>

fun and_then :: "outcome \<Rightarrow> (provider \<Rightarrow> outcome) \<Rightarrow> outcome" where
  "and_then (Done s) f = f s"
| "and_then (Threw e s) f = Threw e (state_of (f s))"

fun forEach :: "('a \<Rightarrow> provider \<Rightarrow> outcome) \<Rightarrow> 'a list \<Rightarrow> provider \<Rightarrow> outcome" where
  "forEach f [] s = Done s"
| "forEach f (x # xs) s = and_then (f x s) (forEach f xs)"

text \<open>\<open>a || b\<close> on strings that may be missing: the empty string is falsy.\<close>

definition or_else :: "string option \<Rightarrow> string option \<Rightarrow> string option" where
  "or_else a b = (case a of None \<Rightarrow> b | Some x \<Rightarrow> if x = [] then b else Some x)"

text \<open>
  \<open>Math.ceil(timeDiff / (1000 * 3600 * 24))\<close> on whole milliseconds; \<open>None\<close> is the NaN of an
  invalid date, for which every comparison is false.
\<close>

definition Math_ceil_div :: "int \<Rightarrow> int \<Rightarrow> int" where
  "Math_ceil_div a b = - ((- a) div b)"

definition daysDiff_of :: "platform \<Rightarrow> int \<Rightarrow> string \<Rightarrow> int option" where
  "daysDiff_of env now dueDateStr =
     (case Date_parse env dueDateStr of
        None \<Rightarrow> None
      | Some dueDate \<Rightarrow> Some (Math_ceil_div (dueDate - now) (1000 * 3600 * 24)))"

definition title_due_tomorrow :: string where
  "title_due_tomorrow = [CHR 0xE2, CHR 0x8F, CHR 0xB0] @ '' Prazo se aproximando''"

definition title_due_in_3_days :: string where
  "title_due_in_3_days = [CHR 0xF0, CHR 0x9F, CHR 0x93, CHR 0x85] @ '' Prazo em 3 dias''"

definition title_overdue :: string where
  "title_overdue = [CHR 0xF0, CHR 0x9F, CHR 0x9A, CHR 0xA8] @ '' Projeto em atraso''"

definition title_task_reminders :: string where
  "title_task_reminders = [CHR 0xF0, CHR 0x9F, CHR 0x93, CHR 0x8B] @ '' Lembretes de Tarefas''"

definition title_weekly_summary :: string where
  "title_weekly_summary =
     [CHR 0xF0, CHR 0x9F, CHR 0x93, CHR 0x8A] @ '' Resumo Semanal - ProjectManager''"

definition title_team_update :: string where
  "title_team_update =
     [CHR 0xF0, CHR 0x9F, CHR 0x91, CHR 0xA5] @ '' Atualiza'' @ [CHR 0xC3, CHR 0xA7]
       @ [CHR 0xC3, CHR 0xA3] @ ''o da Equipe''"

definition title_new_project :: string where
  "title_new_project = [CHR 0xF0, CHR 0x9F, CHR 0x86, CHR 0x95] @ '' Novo Projeto''"

definition message_due_tomorrow :: "string \<Rightarrow> string" where
  "message_due_tomorrow name =
     ''O projeto '' @ [CHR 0x22] @ name @ [CHR 0x22] @ '' vence amanh'' @ [CHR 0xC3, CHR 0xA3]
       @ ''!''"

definition message_due_in_3_days :: "string \<Rightarrow> string" where
  "message_due_in_3_days name =
     ''O projeto '' @ [CHR 0x22] @ name @ [CHR 0x22] @ '' vence em 3 dias.''"

definition message_overdue :: "string \<Rightarrow> int \<Rightarrow> string" where
  "message_overdue name daysDiff =
     ''O projeto '' @ [CHR 0x22] @ name @ [CHR 0x22] @ '' est'' @ [CHR 0xC3, CHR 0xA1] @ '' ''
       @ decimal_of_int (abs daysDiff) @ '' dia(s) atrasado.''"

text \<open>The body of the \<open>forEach\<close> at lines 251-296 (the local tally \<open>alertsSent\<close> is never read).\<close>

definition deadline_alerts_for :: "platform \<Rightarrow> int \<Rightarrow> project \<Rightarrow> provider \<Rightarrow> outcome" where
  "deadline_alerts_for env now p s =
     (if pstatus p = Completed then Done s
      else (case or_else (due_date p) (deadline p) of
              None \<Rightarrow> Done s
            | Some dueDateStr \<Rightarrow>
                if dueDateStr = [] then Done s
                else (let daysDiff = daysDiff_of env now dueDateStr;
                          r1 = (if daysDiff = Some 1
                                then sendNotification env
                                       \<lparr>c_type = Push, c_category = Deadline,
                                        c_title = title_due_tomorrow,
                                        c_message = message_due_tomorrow (pname p),
                                        c_data = ProjectData (pid p)\<rparr> s
                                else Done s);
                          r2 = and_then r1
                                 (\<lambda>s. if daysDiff = Some 3
                                      then sendNotification env
                                             \<lparr>c_type = Push, c_category = Deadline,
                                              c_title = title_due_in_3_days,
                                              c_message = message_due_in_3_days (pname p),
                                              c_data = ProjectData (pid p)\<rparr> s
                                      else Done s)
                      in and_then r2
                           (\<lambda>s. case daysDiff of
                                  None \<Rightarrow> Done s
                                | Some d \<Rightarrow>
                                    if d < 0
                                    then sendNotification env
                                           \<lparr>c_type = Push, c_category = Deadline,
                                            c_title = title_overdue,
                                            c_message = message_overdue (pname p) d,
                                            c_data = ProjectData (pid p)\<rparr> s
                                    else Done s))))"

definition scheduleDeadlineAlerts :: "platform \<Rightarrow> provider \<Rightarrow> outcome" where
  "scheduleDeadlineAlerts env s =
     (if \<not> deadlineAlerts (settings s) \<or> user s = None \<or> length (projects s) = 0
      then Done s
      else forEach (deadline_alerts_for env (Date_now env)) (projects s) s)"

definition is_upcoming :: "platform \<Rightarrow> int \<Rightarrow> project \<Rightarrow> bool" where
  "is_upcoming env today p =
     (if pstatus p = Completed then False
      else (case or_else (due_date p) (deadline p) of
              None \<Rightarrow> False
            | Some dueDateStr \<Rightarrow>
                if dueDateStr = [] then False
                else (case daysDiff_of env today dueDateStr of
                        None \<Rightarrow> False
                      | Some daysDiff \<Rightarrow> daysDiff \<ge> 0 \<and> daysDiff \<le> 7)))"

definition scheduleTaskReminders :: "platform \<Rightarrow> provider \<Rightarrow> outcome" where
  "scheduleTaskReminders env s =
     (if \<not> taskReminders (settings s) \<or> user s = None \<or> length (projects s) = 0
      then Done s
      else (let upcomingProjects = filter (is_upcoming env (Date_now env)) (projects s)
            in if length upcomingProjects > 0
               then sendNotification env
                      \<lparr>c_type = Push, c_category = Task, c_title = title_task_reminders,
                       c_message =
                         ''Voc'' @ [CHR 0xC3, CHR 0xAA] @ '' tem ''
                           @ decimal_of_nat (length upcomingProjects)
                           @ '' projeto(s) com prazo na pr'' @ [CHR 0xC3, CHR 0xB3]
                           @ ''xima semana.'',
                       c_data = TaskData (length upcomingProjects) (map pname upcomingProjects)\<rparr>
                      s
               else Done s))"

text \<open>
  \<open>Math.round(a / b)\<close> for whole \<open>a\<close> and positive whole \<open>b\<close>: halves go up. \<open>x || 0\<close> on a
  number that may be missing.
\<close>

definition Math_round_div :: "int \<Rightarrow> int \<Rightarrow> int" where
  "Math_round_div a b = (2 * a + b) div (2 * b)"

definition or_zero :: "int option \<Rightarrow> int" where
  "or_zero x = (case x of None \<Rightarrow> 0 | Some v \<Rightarrow> v)"

definition date_of :: "platform \<Rightarrow> string option \<Rightarrow> int option" where
  "date_of env x = (case x of None \<Rightarrow> None | Some d \<Rightarrow> Date_parse env d)"

definition bullet :: string where
  "bullet = [CHR 0x0A] @ [CHR 0xE2, CHR 0x80, CHR 0xA2] @ '' ''"

definition summaryMessage :: "platform \<Rightarrow> nat \<Rightarrow> nat \<Rightarrow> nat \<Rightarrow> nat \<Rightarrow> int \<Rightarrow> int \<Rightarrow> string" where
  "summaryMessage env completed inProgress overdue totalProjects avgProgress totalBudget =
     [CHR 0xF0, CHR 0x9F, CHR 0x93, CHR 0x8A] @ '' Resumo da semana:''
       @ bullet @ decimal_of_nat completed @ '' projeto(s) conclu'' @ [CHR 0xC3, CHR 0xAD]
       @ ''do(s)''
       @ bullet @ decimal_of_nat inProgress @ '' em andamento  ''
       @ bullet @ decimal_of_nat overdue @ '' atrasado(s)''
       @ bullet @ decimal_of_nat totalProjects @ '' projetos totais''
       @ bullet @ ''Progresso m'' @ [CHR 0xC3, CHR 0xA9] @ ''dio: '' @ decimal_of_int avgProgress
       @ ''%''
       @ bullet @ ''Or'' @ [CHR 0xC3, CHR 0xA7] @ ''amento total: R$ ''
       @ toLocaleString env totalBudget"

definition sendWeeklySummary :: "platform \<Rightarrow> provider \<Rightarrow> outcome" where
  "sendWeeklySummary env s =
     (if \<not> weeklySummary (settings s) \<or> user s = None \<or> length (projects s) = 0
      then Done s
      else (let now = Date_now env;
                weekAgo = now - 7 * 24 * 60 * 60 * 1000;
                completedThisWeek =
                  filter (\<lambda>p. if pstatus p \<noteq> Completed then False
                              else (case date_of env (or_else (updated_at_p p) (created_at_p p)) of
                                      None \<Rightarrow> False
                                    | Some completedDate \<Rightarrow> completedDate \<ge> weekAgo))
                         (projects s);
                inProgress =
                  filter (\<lambda>p. pstatus p = In_progress \<or> pstatus p = Planning) (projects s);
                overdue =
                  filter (\<lambda>p. if pstatus p = Completed then False
                              else (case or_else (due_date p) (deadline p) of
                                      None \<Rightarrow> False
                                    | Some dueDateStr \<Rightarrow>
                                        if dueDateStr = [] then False
                                        else (case Date_parse env dueDateStr of
                                                None \<Rightarrow> False
                                              | Some dueDate \<Rightarrow> dueDate < now)))
                         (projects s);
                totalBudget = foldl (\<lambda>sum p. sum + or_zero (budget p)) 0 (projects s);
                avgProgress =
                  (if length (projects s) > 0
                   then Math_round_div (foldl (\<lambda>sum p. sum + or_zero (progress p)) 0 (projects s))
                          (int (length (projects s)))
                   else 0)
            in sendNotification env
                 \<lparr>c_type = Email, c_category = Summary, c_title = title_weekly_summary,
                  c_message =
                    summaryMessage env (length completedThisWeek) (length inProgress)
                      (length overdue) (length (projects s)) avgProgress totalBudget,
                  c_data =
                    SummaryData (length completedThisWeek) (length inProgress) (length overdue)
                      (length (projects s)) avgProgress totalBudget\<rparr>
                 s))"

subsection \<open>The listeners for project events (lines 389-428)\<close>

datatype event =
    projectUpdated string string "User option"
  | projectCreated project "User option"

definition handleProjectUpdate ::
  "platform \<Rightarrow> User \<Rightarrow> string \<Rightarrow> string \<Rightarrow> User option \<Rightarrow> provider \<Rightarrow> outcome" where
  "handleProjectUpdate env u projectId action actionUser s =
     (case actionUser of
        None \<Rightarrow> Done s
      | Some a \<Rightarrow>
          if uid a \<noteq> uid u
          then sendNotification env
                 \<lparr>c_type = Push, c_category = Team, c_title = title_team_update,
                  c_message = uname a @ '' '' @ action @ '' um projeto.'',
                  c_data = TeamData projectId a\<rparr> s
          else Done s)"

definition handleProjectCreated ::
  "platform \<Rightarrow> User \<Rightarrow> project \<Rightarrow> User option \<Rightarrow> provider \<Rightarrow> outcome" where
  "handleProjectCreated env u p creator s =
     (case creator of
        None \<Rightarrow> Done s
      | Some c \<Rightarrow>
          if uid c \<noteq> uid u
          then sendNotification env
                 \<lparr>c_type = Push, c_category = Team, c_title = title_new_project,
                  c_message =
                    uname c @ '' criou o projeto '' @ [CHR 0x22] @ pname p @ [CHR 0x22] @ ''.'',
                  c_data = CreatedData (pid p) c\<rparr> s
          else Done s)"

text \<open>
  An event on \<open>window\<close> reaches a handler only while the effect has its listeners registered:
  team updates on, a user signed in, initialization done.
\<close>

definition window_dispatchEvent :: "platform \<Rightarrow> event \<Rightarrow> provider \<Rightarrow> outcome" where
  "window_dispatchEvent env ev s =
     (if \<not> teamUpdates (settings s) \<or> \<not> initialized s then Done s
      else (case user s of
              None \<Rightarrow> Done s
            | Some u \<Rightarrow>
                (case ev of
                   projectUpdated projectId action actionUser \<Rightarrow>
                     handleProjectUpdate env u projectId action actionUser s
                 | projectCreated p creator \<Rightarrow> handleProjectCreated env u p creator s)))"

subsection \<open>Notions used to state the properties\<close>

text \<open>
  The notifications that a run of sends builds, oldest first: each send draws its id from the
  counter as it stands.
\<close>

fun created :: "(platform \<times> Candidate) list \<Rightarrow> provider \<Rightarrow> Notification list" where
  "created [] s = []"
| "created ((env, c) # xs) s =
     (let (i, s1) = generateUniqueNotificationId env s
      in new_notification env i c # created xs s1)"



subsection \<open>Example inputs\<close>

text \<open>
  A browser with push support whose permission prompt is answered with a refusal, at
  midnight UTC of 2024-06-10, and two users.
\<close>

definition example_env :: platform where
  "example_env =
     \<lparr>Notification_in_window = True, serviceWorker_in_navigator = True,
      Notification_permission = Default_permission,
      Notification_requestPermission = Resolves Denied,
      Notification_constructor_throws = False, setItem_throws = False,
      Date_now = 1717977600000, Math_random = (\<lambda>n. ''k3x9qa''),
      Date_parse = (\<lambda>t. if t = ''2024-06-11'' then Some 1718064000000
                        else if t = ''2024-06-05'' then Some 1717545600000 else None),
      toISOString = (\<lambda>t. ''2024-06-10T00:00:00.000Z''),
      toLocaleString = decimal_of_int\<rparr>"

definition ana :: User where
  "ana = \<lparr>uid = ''u1'', uname = ''Ana''\<rparr>"

definition bruno :: User where
  "bruno = \<lparr>uid = ''u2'', uname = ''Bruno''\<rparr>"

definition empty_storage :: localStorage where
  "empty_storage = \<lparr>items = [], journal = []\<rparr>"

text \<open>The provider mounted before anybody signs in, and after Ana has signed in.\<close>

definition signed_out :: provider where
  "signed_out = state_of (mount example_env None [] empty_storage)"

definition signed_in :: provider where
  "signed_in = state_of (user_changed example_env (Some ana) signed_out)"

definition reminder :: Candidate where
  "reminder =
     \<lparr>c_type = System, c_category = Project, c_title = ''Aviso'', c_message = ''Teste'',
      c_data = NoData\<rparr>"

definition enable_push :: PartialSettings where
  "enable_push = no_fields\<lparr>p_push := Some True\<rparr>"

text \<open>
  A ledger entry kept in localStorage whose id is the one the generator builds first after
  a reload at the example's clock reading, and the provider mounted on that store.
\<close>

definition stale_entry :: Notification where
  "stale_entry =
     \<lparr>nid = ''notification-1717977600000-1-k3x9qa'', ntype = System, ncategory = Project,
      title = ''Antigo'', message = ''Da visita anterior'', ndata = NoData, read = True,
      created_at = ''2024-06-10T00:00:00.000Z''\<rparr>"

definition stored_ledger :: localStorage where
  "stored_ledger =
     \<lparr>items = [(''notifications_u1'', Notifications_blob [stale_entry])], journal = []\<rparr>"

definition reloaded :: provider where
  "reloaded = state_of (mount example_env (Some ana) [] stored_ledger)"

definition site :: project where
  "site =
     \<lparr>pid = ''p1'', pname = ''Site'', pstatus = In_progress, due_date = Some ''2024-06-11'',
      deadline = None, progress = Some 40, budget = Some 1000,
      created_at_p = Some ''2024-06-01'', updated_at_p = None\<rparr>"




definition fifty_two_sends :: "(platform \<times> Candidate) list" where
  "fifty_two_sends = replicate 52 (example_env, reminder)"

text \<open>
  Variants of the example browser: a store that is full, a browser without the Notification
  API, and browsers where the permission is already decided.
\<close>

definition full_disk_env :: platform where
  "full_disk_env = example_env\<lparr>setItem_throws := True\<rparr>"






text \<open>
  A browser that holds settings and a ledger stored for Bruno, and the provider after Ana
  has signed in on it.
\<close>

definition brunos_settings :: stored where
  "brunos_settings =
     Settings_blob (no_fields\<lparr>p_email := Some False, p_teamUpdates := Some False\<rparr>)"

definition shared_browser :: localStorage where
  "shared_browser =
     \<lparr>items = [(''notification_settings_u2'', brunos_settings),
               (''notifications_u2'', Notifications_blob [stale_entry])],
      journal = []\<rparr>"

definition ana_session :: provider where
  "ana_session =
     state_of (user_changed example_env (Some ana)
                 (state_of (mount example_env None [] shared_browser)))"

section \<open>Properties\<close>

declare decimal.simps [simp del]

subsection \<open>Helper facts\<close>

lemma findIndex_ge: "findIndex P xs \<ge> - 1"
  by (induction xs) (auto simp: Let_def)

lemma findIndex_none: "findIndex P xs = - 1 \<longleftrightarrow> (\<forall>x\<in>set xs. \<not> P x)"
proof (induction xs)
  case Nil
  show ?case by simp
next
  case (Cons a xs)
  have "findIndex P xs \<ge> - 1" by (rule findIndex_ge)
  with Cons show ?case by (auto simp: Let_def)
qed

lemma state_of_and_then: "state_of (and_then r f) = state_of (f (state_of r))"
  by (cases r) auto

lemma dispatch_push_fields [simp]:
  "notifications (dispatch_push env n s) = notifications s"
  "unreadCount (dispatch_push env n s) = unreadCount s"
  "storage (dispatch_push env n s) = storage s"
  "user (dispatch_push env n s) = user s"
  "notificationCounter (dispatch_push env n s) = notificationCounter s"
  by (simp_all add: dispatch_push_def)

lemma ledger_updater_duplicate:
  "\<exists>m\<in>set prev. nid m = nid n \<Longrightarrow> ledger_updater env u n prev st = Inr (prev, st)"
  using findIndex_none [of "\<lambda>m. nid m = nid n" prev]
  by (auto simp: ledger_updater_def Let_def)

lemma ledger_updater_cases:
  "ledger_updater env u n prev st = Inr (l, st') \<Longrightarrow> l = prev \<or> l = take 50 (n # prev)"
  by (auto simp: ledger_updater_def Let_def split: if_splits sum.splits)

lemma send_ledger_cases:
  "notifications (state_of (sendNotification env c s)) = notifications s \<or>
   notifications (state_of (sendNotification env c s)) =
     take 50 (new_notification env (fst (generateUniqueNotificationId env s)) c # notifications s)"
  by (auto simp: sendNotification_def generateUniqueNotificationId_def Let_def
      split: option.splits sum.splits prod.splits dest!: ledger_updater_cases)

lemma send_length:
  "length (notifications s) \<le> 50 \<Longrightarrow>
   length (notifications (state_of (sendNotification env c s))) \<le> 50"
  using send_ledger_cases [of env c s] by auto

lemma forEach_send_length:
  "length (notifications s) \<le> 50 \<Longrightarrow>
   length (notifications (state_of (forEach (\<lambda>(env, c). sendNotification env c) xs s))) \<le> 50"
proof (induction xs arbitrary: s)
  case Nil
  then show ?case by simp
next
  case (Cons x xs)
  obtain env c where x: "x = (env, c)" by (cases x)
  have "length (notifications (state_of (sendNotification env c s))) \<le> 50"
    using Cons.prems by (rule send_length)
  from Cons.IH [OF this] show ?case
    by (simp add: x state_of_and_then)
qed

subsection \<open>Operations without a signed-in user\<close>

text \<open>
  C10. While no user is signed in (\<open>user\<close> is null), updateSettings, sendNotification,
  markAsRead, markAllAsRead, clearAll and the three rule evaluators return at once and change
  nothing: the whole state, which holds the settings, the ledger, the unread count, the
  id counter and the stored entries, is the one they were called on.
\<close>

theorem signed_out_operations_change_nothing:
  "user s = None \<Longrightarrow>
   updateSettings env newSettings s = Done s \<and> sendNotification env c s = Done s \<and>
   markAsRead env i s = Done s \<and> markAllAsRead env s = Done s \<and> clearAll env s = Done s \<and>
   scheduleDeadlineAlerts env s = Done s \<and> scheduleTaskReminders env s = Done s \<and>
   sendWeeklySummary env s = Done s"
  by (simp add: updateSettings_def sendNotification_def markAsRead_def markAllAsRead_def
      clearAll_def scheduleDeadlineAlerts_def scheduleTaskReminders_def sendWeeklySummary_def)

theorem signed_out_operations_change_nothing_witness:
  "user signed_out = None \<and>
   updateSettings example_env no_fields signed_out = Done signed_out \<and>
   sendNotification example_env reminder signed_out = Done signed_out \<and>
   markAsRead example_env ''x'' signed_out = Done signed_out \<and>
   markAllAsRead example_env signed_out = Done signed_out \<and>
   clearAll example_env signed_out = Done signed_out \<and>
   scheduleDeadlineAlerts example_env signed_out = Done signed_out \<and>
   scheduleTaskReminders example_env signed_out = Done signed_out \<and>
   sendWeeklySummary example_env signed_out = Done signed_out"
proof -
  have u: "user signed_out = None" by code_simp
  from signed_out_operations_change_nothing [OF u, of example_env no_fields reminder "''x''"] u
  show ?thesis by blast
qed

subsection \<open>Events caused by the signed-in user\<close>

text \<open>
  C9. A "project updated" or "project created" event whose acting user has the id of the
  signed-in user produces no notification: the handler leaves the whole state, ledger and
  unread count included, as it was.
\<close>

theorem own_actions_are_not_notified:
  "user s = Some u \<Longrightarrow> uid a = uid u \<Longrightarrow>
   window_dispatchEvent env (projectUpdated projectId action (Some a)) s = Done s \<and>
   window_dispatchEvent env (projectCreated p (Some a)) s = Done s"
  by (simp add: window_dispatchEvent_def handleProjectUpdate_def handleProjectCreated_def)

text \<open>At the example: Ana's own events change nothing, Bruno's update reaches her ledger.\<close>

theorem own_actions_are_not_notified_witness:
  "user signed_in = Some ana \<and> uid ana = uid ana \<and>
   window_dispatchEvent example_env (projectUpdated ''p1'' ''atualizou'' (Some ana)) signed_in
     = Done signed_in \<and>
   window_dispatchEvent example_env (projectCreated site (Some ana)) signed_in = Done signed_in \<and>
   window_dispatchEvent example_env (projectUpdated ''p1'' ''atualizou'' (Some bruno)) signed_in
     \<noteq> Done signed_in"
proof -
  have u: "user signed_in = Some ana" by code_simp
  have other: "length (notifications (state_of (window_dispatchEvent example_env
      (projectUpdated ''p1'' ''atualizou'' (Some bruno)) signed_in))) = 1" by code_simp
  have "notifications signed_in = []" by code_simp
  with other have ne: "window_dispatchEvent example_env
      (projectUpdated ''p1'' ''atualizou'' (Some bruno)) signed_in \<noteq> Done signed_in"
    by auto
  from own_actions_are_not_notified [OF u refl, of example_env "''p1''" "''atualizou''" site]
    u ne
  show ?thesis by simp
qed

subsection \<open>Appending to the ledger\<close>

lemma send_duplicate:
  assumes "user s = Some u" and "m \<in> set (notifications s)"
    and "nid m = fst (generateUniqueNotificationId env s)"
  shows "sendNotification env c s =
           Done (dispatch_push env (new_notification env (nid m) c)
                   (s\<lparr>notificationCounter := notificationCounter s + 1,
                      unreadCount := unreadCount s + 1\<rparr>))"
proof -
  let ?n = "new_notification env (nid m) c"
  have "\<exists>x\<in>set (notifications s). nid x = nid ?n"
    using assms(2) by (auto simp: new_notification_def)
  then have "ledger_updater env u ?n (notifications s) (storage s)
               = Inr (notifications s, storage s)"
    by (rule ledger_updater_duplicate)
  then show ?thesis
    using assms(1,3)
    by (simp add: sendNotification_def generateUniqueNotificationId_def Let_def)
qed

text \<open>
  C5. When the id drawn for a new notification is the id of an entry already in the ledger,
  the send ends normally, whether or not the store accepts writes, and the ledger has the
  same entries in the same order and the same length; nothing is written to the store.
\<close>

theorem duplicate_id_leaves_ledger_unchanged:
  assumes "user s = Some u" and "m \<in> set (notifications s)"
    and "nid m = fst (generateUniqueNotificationId env s)"
  shows "\<exists>s'. sendNotification env c s = Done s' \<and> notifications s' = notifications s \<and>
           length (notifications s') = length (notifications s) \<and> storage s' = storage s"
  using send_duplicate [OF assms] by simp

theorem duplicate_id_leaves_ledger_unchanged_witness:
  "user reloaded = Some ana \<and> stale_entry \<in> set (notifications reloaded) \<and>
   nid stale_entry = fst (generateUniqueNotificationId example_env reloaded) \<and>
   (\<exists>s'. sendNotification example_env reminder reloaded = Done s' \<and>
          notifications s' = notifications reloaded \<and>
          length (notifications s') = length (notifications reloaded) \<and>
          storage s' = storage reloaded)"
proof -
  have u: "user reloaded = Some ana" by code_simp
  have l: "notifications reloaded = [stale_entry]" by code_simp
  have m: "stale_entry \<in> set (notifications reloaded)" unfolding l by simp
  have i: "nid stale_entry = fst (generateUniqueNotificationId example_env reloaded)"
    by code_simp
  from duplicate_id_leaves_ledger_unchanged [OF u m i, of reminder] u m i
  show ?thesis by blast
qed

subsection \<open>Enabling push when the permission is refused\<close>

text \<open>
  C7. With a user signed in, push supported, a store that accepts writes and a permission
  request that does not end in a grant (refused, dismissed, or failing), an update that
  sets push to true ends normally with push false, and it has written the settings exactly
  twice: first with push true, then with push false.
\<close>

theorem refused_permission_rolls_push_back:
  assumes "user s = Some u" and "pushSupported s"
    and "Notification_requestPermission env \<noteq> Resolves Granted"
    and "\<not> setItem_throws env"
    and "p_push newSettings = Some True"
  shows "\<exists>s'. updateSettings env newSettings s = Done s' \<and>
           push (settings s') = False \<and>
           settings s' = (spread (settings s) newSettings)\<lparr>push := False\<rparr> \<and>
           journal (storage s') =
             journal (storage s)
               @ [SetItem (settings_key u)
                    (stringify_settings ((spread (settings s) newSettings)\<lparr>push := True\<rparr>)),
                  SetItem (settings_key u)
                    (stringify_settings ((spread (settings s) newSettings)\<lparr>push := False\<rparr>))]"
proof -
  have sp: "(spread (settings s) newSettings)\<lparr>push := True\<rparr> = spread (settings s) newSettings"
    using assms(5) by (simp add: spread_def)
  show ?thesis
    unfolding sp
    using assms
    by (cases "Notification_requestPermission env")
       (auto simp: updateSettings_def Let_def setItem_def requestPushPermission_def split_beta)
qed

theorem refused_permission_rolls_push_back_witness:
  "user signed_in = Some ana \<and> pushSupported signed_in \<and>
   Notification_requestPermission example_env \<noteq> Resolves Granted \<and>
   \<not> setItem_throws example_env \<and> p_push enable_push = Some True \<and>
   (\<exists>s'. updateSettings example_env enable_push signed_in = Done s' \<and>
          push (settings s') = False \<and>
          settings s' = (spread (settings signed_in) enable_push)\<lparr>push := False\<rparr> \<and>
          journal (storage s') =
            journal (storage signed_in)
              @ [SetItem (settings_key ana)
                   (stringify_settings
                      ((spread (settings signed_in) enable_push)\<lparr>push := True\<rparr>)),
                 SetItem (settings_key ana)
                   (stringify_settings
                      ((spread (settings signed_in) enable_push)\<lparr>push := False\<rparr>))])"
proof -
  have u: "user signed_in = Some ana" by code_simp
  have p: "pushSupported signed_in" by code_simp
  have r: "Notification_requestPermission example_env \<noteq> Resolves Granted" by code_simp
  have w: "\<not> setItem_throws example_env" by code_simp
  have e: "p_push enable_push = Some True" by code_simp
  from refused_permission_rolls_push_back [OF u p r w e] u p r w e show ?thesis by blast
qed

subsection \<open>Runs of sends\<close>

lemma send_fresh:
  assumes "user s = Some u" and "\<not> setItem_throws env"
    and "\<forall>m\<in>set (notifications s). nid m \<noteq> fst (generateUniqueNotificationId env s)"
  shows "\<exists>s'. sendNotification env c s = Done s' \<and>
           notifications s' =
             take 50 (new_notification env (fst (generateUniqueNotificationId env s)) c
                        # notifications s) \<and>
           unreadCount s' = unreadCount s + 1 \<and> user s' = user s \<and>
           notificationCounter s' = notificationCounter s + 1"
proof -
  let ?i = "fst (generateUniqueNotificationId env s)"
  let ?n = "new_notification env ?i c"
  have "findIndex (\<lambda>x. nid x = nid ?n) (notifications s) = - 1"
    using assms(3) by (simp add: findIndex_none new_notification_def)
  then show ?thesis
    using assms(1,2)
    by (simp add: sendNotification_def generateUniqueNotificationId_def Let_def
        ledger_updater_def setItem_def)
qed

lemma created_counter:
  "notificationCounter s = notificationCounter s' \<Longrightarrow> created xs s = created xs s'"
proof (induction xs arbitrary: s s')
  case Nil
  show ?case by simp
next
  case (Cons x xs)
  obtain env c where x: "x = (env, c)" by (cases x)
  have "created xs (s\<lparr>notificationCounter := notificationCounter s + 1\<rparr>) =
        created xs (s'\<lparr>notificationCounter := notificationCounter s' + 1\<rparr>)"
    by (rule Cons.IH) (simp add: Cons.prems)
  then show ?case
    using Cons.prems by (simp add: x generateUniqueNotificationId_def Let_def)
qed

lemma length_created: "length (created xs s) = length xs"
  by (induction xs arbitrary: s) (auto simp: split_beta Let_def)

lemma forEach_Nil_fun [simp]: "forEach f [] = Done"
  by (rule ext) simp

lemma digit_inj: "a < 10 \<Longrightarrow> b < 10 \<Longrightarrow> digit a = digit b \<Longrightarrow> a = b"
  using nth_eq_iff_index_eq [of "''0123456789''" a b] by (simp add: digit_def)

lemma decimal_nonempty: "decimal i \<noteq> []"
  by (subst decimal.simps) simp

lemma decimal_inj: "0 \<le> i \<Longrightarrow> 0 \<le> j \<Longrightarrow> decimal i = decimal j \<Longrightarrow> i = j"
proof (induction i arbitrary: j rule: decimal.induct)
  case (1 i)
  show ?case
  proof (cases "i < 10")
    case small_i: True
    show ?thesis
    proof (cases "j < 10")
      case True
      with small_i "1.prems" have "digit (nat i) = digit (nat j)"
        by (simp add: decimal.simps [of i] decimal.simps [of j])
      with small_i True "1.prems" have "nat i = nat j"
        by (intro digit_inj) simp_all
      with "1.prems" show ?thesis by simp
    next
      case False
      with small_i "1.prems"(3) have "[digit (nat i)] = decimal (j div 10) @ [digit (nat (j mod 10))]"
        by (simp add: decimal.simps [of i] decimal.simps [of j])
      then have "decimal (j div 10) = []" by simp
      then show ?thesis by (simp add: decimal_nonempty)
    qed
  next
    case big_i: False
    show ?thesis
    proof (cases "j < 10")
      case True
      with big_i "1.prems"(3) have "decimal (i div 10) @ [digit (nat (i mod 10))] = [digit (nat j)]"
        by (simp add: decimal.simps [of i] decimal.simps [of j])
      then have "decimal (i div 10) = []" by simp
      then show ?thesis by (simp add: decimal_nonempty)
    next
      case False
      with big_i "1.prems"(3)
      have eq: "decimal (i div 10) = decimal (j div 10)"
        and dg: "digit (nat (i mod 10)) = digit (nat (j mod 10))"
        by (simp_all add: decimal.simps [of i] decimal.simps [of j])
      have "i div 10 = j div 10"
        using big_i "1.prems"(1,2) eq by (intro "1.IH") simp_all
      moreover have "nat (i mod 10) = nat (j mod 10)"
        using dg by (intro digit_inj) simp_all
      then have "i mod 10 = j mod 10" by simp
      ultimately show ?thesis by (metis mult_div_mod_eq)
    qed
  qed
qed

lemma created_ids_above:
  assumes "\<forall>x\<in>set xs. fst x = env" and "m \<in> set (created xs s)"
  shows "\<exists>j>notificationCounter s.
           nid m = ''notification-'' @ decimal_of_int (Date_now env) @ ''-'' @ decimal_of_nat j
                     @ ''-'' @ Math_random env j"
  using assms
proof (induction xs arbitrary: s)
  case Nil
  then show ?case by simp
next
  case (Cons x xs)
  obtain c where x: "x = (env, c)" using Cons.prems(1) by (cases x) simp
  let ?s1 = "s\<lparr>notificationCounter := notificationCounter s + 1\<rparr>"
  from Cons.prems(2)
  consider "m = new_notification env (fst (generateUniqueNotificationId env s)) c"
    | "m \<in> set (created xs ?s1)"
    by (auto simp: x generateUniqueNotificationId_def Let_def)
  then show ?case
  proof cases
    case 1
    then show ?thesis
      by (auto simp: new_notification_def generateUniqueNotificationId_def Let_def)
  next
    case 2
    from Cons.IH [OF _ 2] Cons.prems(1)
    obtain j where "notificationCounter ?s1 < j"
      and "nid m = ''notification-'' @ decimal_of_int (Date_now env) @ ''-'' @ decimal_of_nat j
                     @ ''-'' @ Math_random env j" by auto
    then show ?thesis by (intro exI [of _ j]) simp
  qed
qed

lemma id_inj:
  assumes "Math_random env a = Math_random env b"
    and "''notification-'' @ decimal_of_int (Date_now env) @ ''-'' @ decimal_of_nat a
           @ ''-'' @ Math_random env a =
         ''notification-'' @ decimal_of_int (Date_now env) @ ''-'' @ decimal_of_nat b
           @ ''-'' @ Math_random env b"
  shows "a = b"
proof -
  from assms(2) have "decimal_of_nat a @ ''-'' @ Math_random env a =
               decimal_of_nat b @ ''-'' @ Math_random env b"
    by simp
  with assms(1) have "decimal_of_nat a = decimal_of_nat b" by simp
  then have "int a = int b"
    unfolding decimal_of_nat_def by (intro decimal_inj) simp_all
  then show "a = b" by simp
qed

lemma distinct_created_same_env:
  assumes "\<forall>x\<in>set xs. fst x = env" and "\<forall>a b. Math_random env a = Math_random env b"
  shows "distinct (map nid (created xs s))"
  using assms(1)
proof (induction xs arbitrary: s)
  case Nil
  show ?case by simp
next
  case (Cons x xs)
  obtain c where x: "x = (env, c)" using Cons.prems by (cases x) simp
  let ?s1 = "s\<lparr>notificationCounter := notificationCounter s + 1\<rparr>"
  let ?n = "new_notification env (fst (generateUniqueNotificationId env s)) c"
  have cr: "created (x # xs) s = ?n # created xs ?s1"
    by (simp add: x generateUniqueNotificationId_def Let_def)
  have rest: "distinct (map nid (created xs ?s1))"
    using Cons.prems by (intro Cons.IH) simp
  have "nid ?n \<noteq> nid m" if "m \<in> set (created xs ?s1)" for m
  proof
    assume eq: "nid ?n = nid m"
    from created_ids_above [OF _ that] Cons.prems
    obtain j where j: "notificationCounter ?s1 < j"
      and "nid m = ''notification-'' @ decimal_of_int (Date_now env) @ ''-'' @ decimal_of_nat j
                     @ ''-'' @ Math_random env j" by auto
    with eq have "''notification-'' @ decimal_of_int (Date_now env) @ ''-''
                    @ decimal_of_nat (notificationCounter s + 1)
                    @ ''-'' @ Math_random env (notificationCounter s + 1) =
                  ''notification-'' @ decimal_of_int (Date_now env) @ ''-'' @ decimal_of_nat j
                     @ ''-'' @ Math_random env j"
      by (simp add: new_notification_def generateUniqueNotificationId_def Let_def)
    from id_inj [OF _ this] assms(2) have "notificationCounter s + 1 = j" by blast
    with j show False by simp
  qed
  with rest show ?case unfolding cr by auto
qed

lemma take_append_take: "take k (xs @ take k ys) = take k (xs @ ys)"
  by (simp add: min_def)

lemma run_of_fresh_sends:
  assumes "user s = Some u" and "\<forall>x\<in>set xs. \<not> setItem_throws (fst x)"
    and "distinct (map nid (created xs s))"
    and "\<forall>m\<in>set (notifications s). nid m \<notin> nid ` set (created xs s)"
    and "length (notifications s) \<le> 50"
  shows "\<exists>s'. forEach (\<lambda>(env, c). sendNotification env c) xs s = Done s' \<and>
           notifications s' = take 50 (rev (created xs s) @ notifications s) \<and>
           unreadCount s' = unreadCount s + length xs"
  using assms
proof (induction xs arbitrary: s)
  case Nil
  then show ?case by simp
next
  case (Cons x xs)
  obtain env c where x: "x = (env, c)" by (cases x)
  let ?i = "fst (generateUniqueNotificationId env s)"
  let ?n = "new_notification env ?i c"
  let ?s1 = "snd (generateUniqueNotificationId env s)"
  have cr: "created (x # xs) s = ?n # created xs ?s1"
    by (simp add: x split_beta Let_def)
  have nid_n: "nid ?n = ?i" by (simp add: new_notification_def)
  have fresh: "\<forall>m\<in>set (notifications s). nid m \<noteq> ?i"
    using Cons.prems(4) unfolding cr by (auto simp: nid_n)
  have ok: "\<not> setItem_throws env" using Cons.prems(2) by (simp add: x)
  from send_fresh [OF Cons.prems(1) ok fresh, of c]
  obtain s2 where s2: "sendNotification env c s = Done s2"
    and l2: "notifications s2 = take 50 (?n # notifications s)"
    and c2: "unreadCount s2 = unreadCount s + 1" and u2: "user s2 = user s"
    and k2: "notificationCounter s2 = notificationCounter s + 1" by blast
  have same: "created xs s2 = created xs ?s1"
    by (rule created_counter) (simp add: k2 generateUniqueNotificationId_def Let_def)
  have d: "distinct (map nid (created xs s2))"
    using Cons.prems(3) unfolding cr same by simp
  have "set (notifications s2) \<subseteq> insert ?n (set (notifications s))"
    unfolding l2 using set_take_subset [of 50 "?n # notifications s"] by simp
  moreover have "nid ?n \<notin> nid ` set (created xs s2)"
    using Cons.prems(3) unfolding cr same by simp
  moreover have "\<forall>m\<in>set (notifications s). nid m \<notin> nid ` set (created xs s2)"
    using Cons.prems(4) unfolding cr same by simp
  ultimately have f: "\<forall>m\<in>set (notifications s2). nid m \<notin> nid ` set (created xs s2)"
    by blast
  have u: "user s2 = Some u" using u2 Cons.prems(1) by simp
  have r: "\<forall>x\<in>set xs. \<not> setItem_throws (fst x)" using Cons.prems(2) by simp
  have len: "length (notifications s2) \<le> 50" unfolding l2 by simp
  from Cons.IH [OF u r d f len]
  obtain s' where a: "forEach (\<lambda>(env, c). sendNotification env c) xs s2 = Done s'"
    and b: "notifications s' = take 50 (rev (created xs s2) @ notifications s2)"
    and e: "unreadCount s' = unreadCount s2 + length xs" by blast
  have "forEach (\<lambda>(env, c). sendNotification env c) (x # xs) s = Done s'"
    by (simp add: x s2 a)
  moreover have "notifications s' = take 50 (rev (created (x # xs) s) @ notifications s)"
    unfolding b l2 take_append_take cr same by simp
  moreover have "unreadCount s' = unreadCount s + length (x # xs)"
    using e c2 by simp
  ultimately show ?case by blast
qed

lemma and_then_Done [simp]: "and_then r Done = r"
  by (cases r) simp_all




text \<open>
  C6. A run of sends never leaves the ledger longer than 50 entries, whatever the sends do
  (rejected duplicates and failing writes included). When the run starts from the empty
  ledger with a user signed in, a store that accepts writes and ids that differ, it ends
  normally and the ledger is the 50 newest of the notifications built, newest first: the
  entries missing are exactly the oldest ones, those built first.
\<close>

theorem ledger_keeps_the_newest_fifty:
  "(length (notifications s) \<le> 50 \<longrightarrow>
      length (notifications (state_of (forEach (\<lambda>(env, c). sendNotification env c) xs s)))
        \<le> 50) \<and>
   (user s = Some u \<and> notifications s = [] \<and> (\<forall>x\<in>set xs. \<not> setItem_throws (fst x)) \<and>
    distinct (map nid (created xs s)) \<longrightarrow>
      (\<exists>s'. forEach (\<lambda>(env, c). sendNotification env c) xs s = Done s' \<and>
            notifications s' = take 50 (rev (created xs s)) \<and>
            notifications s' = rev (drop (length xs - 50) (created xs s))))"
proof (intro conjI impI)
  assume "length (notifications s) \<le> 50"
  then show "length (notifications
      (state_of (forEach (\<lambda>(env, c). sendNotification env c) xs s))) \<le> 50"
    by (rule forEach_send_length)
next
  assume a: "user s = Some u \<and> notifications s = [] \<and>
    (\<forall>x\<in>set xs. \<not> setItem_throws (fst x)) \<and> distinct (map nid (created xs s))"
  then have "\<exists>s'. forEach (\<lambda>(env, c). sendNotification env c) xs s = Done s' \<and>
           notifications s' = take 50 (rev (created xs s) @ notifications s) \<and>
           unreadCount s' = unreadCount s + length xs"
    by (intro run_of_fresh_sends) simp_all
  then show "\<exists>s'. forEach (\<lambda>(env, c). sendNotification env c) xs s = Done s' \<and>
            notifications s' = take 50 (rev (created xs s)) \<and>
            notifications s' = rev (drop (length xs - 50) (created xs s))"
    using a by (auto simp: take_rev length_created)
qed


theorem ledger_keeps_the_newest_fifty_witness:
  "user signed_in = Some ana \<and> notifications signed_in = [] \<and>
   distinct (map nid (created fifty_two_sends signed_in)) \<and>
   length (notifications (state_of
     (forEach (\<lambda>(env, c). sendNotification env c) fifty_two_sends signed_in))) \<le> 50 \<and>
   (\<exists>s'. forEach (\<lambda>(env, c). sendNotification env c) fifty_two_sends signed_in = Done s' \<and>
         notifications s' = take 50 (rev (created fifty_two_sends signed_in)) \<and>
         notifications s' = rev (drop 2 (created fifty_two_sends signed_in)) \<and>
         length (notifications s') = 50)"
proof -
  have d: "distinct (map nid (created fifty_two_sends signed_in))"
  proof (rule distinct_created_same_env)
    show "\<forall>x\<in>set fifty_two_sends. fst x = example_env" by (simp add: fifty_two_sends_def)
    show "\<forall>a b. Math_random example_env a = Math_random example_env b"
      by (simp add: example_env_def)
  qed
  have u: "user signed_in = Some ana" by code_simp
  have e: "notifications signed_in = []" by code_simp
  have w: "\<not> setItem_throws example_env" by code_simp
  have ok: "\<forall>x\<in>set fifty_two_sends. \<not> setItem_throws (fst x)"
    by (simp add: fifty_two_sends_def w)
  have n: "length fifty_two_sends = 52" by (simp add: fifty_two_sends_def)
  from ledger_keeps_the_newest_fifty [of signed_in fifty_two_sends ana] u e ok d n
  show ?thesis by (auto simp: length_created)
qed

subsection \<open>Deadline alerts on 2024-06-10\<close>



subsection \<open>Writes that the store rejects\<close>

text \<open>
  C2, as stated, fails: no write to localStorage in the file sits inside a try block. With a
  full store, markAsRead, markAllAsRead and updateSettings end with the store's exception
  and nothing is logged; the same exception comes out of the ledger updater of
  sendNotification, and the ledger is not extended.
\<close>

theorem failing_write_is_not_caught:
  "thrown (markAsRead full_disk_env ''n1'' signed_in) = Some QuotaExceededError \<and>
   thrown (markAllAsRead full_disk_env signed_in) = Some QuotaExceededError \<and>
   thrown (updateSettings full_disk_env enable_push signed_in) = Some QuotaExceededError \<and>
   thrown (sendNotification full_disk_env reminder signed_in) = Some QuotaExceededError \<and>
   notifications (state_of (sendNotification full_disk_env reminder signed_in)) = [] \<and>
   console_errors (state_of (markAsRead full_disk_env ''n1'' signed_in)) = []"
  by code_simp


text \<open>
  C2, amended. With a user signed in: when the store rejects the write, updateSettings,
  markAsRead and markAllAsRead stop with the store's exception, the state holding the
  mutation made before the write and the store untouched; sendNotification, for an id not in
  the ledger, raises the exception from the ledger updater and leaves ledger, unread count
  and store as they were. When the store accepts writes, all four end normally.
\<close>

theorem failing_write_ends_the_operation:
  assumes "user s = Some u"
  shows "(setItem_throws env \<longrightarrow>
            updateSettings env newSettings s =
              Threw QuotaExceededError (s\<lparr>settings := spread (settings s) newSettings\<rparr>) \<and>
            markAsRead env i s =
              Threw QuotaExceededError
                (s\<lparr>notifications :=
                      map (\<lambda>n. if nid n = i then n\<lparr>read := True\<rparr> else n) (notifications s),
                    unreadCount :=
                      unread (map (\<lambda>n. if nid n = i then n\<lparr>read := True\<rparr> else n)
                                (notifications s))\<rparr>) \<and>
            markAllAsRead env s =
              Threw QuotaExceededError
                (s\<lparr>notifications := map (\<lambda>n. n\<lparr>read := True\<rparr>) (notifications s),
                    unreadCount := 0\<rparr>) \<and>
            ((\<forall>m\<in>set (notifications s). nid m \<noteq> fst (generateUniqueNotificationId env s)) \<longrightarrow>
               thrown (sendNotification env c s) = Some QuotaExceededError \<and>
               notifications (state_of (sendNotification env c s)) = notifications s \<and>
               unreadCount (state_of (sendNotification env c s)) = unreadCount s \<and>
               storage (state_of (sendNotification env c s)) = storage s)) \<and>
         (\<not> setItem_throws env \<longrightarrow>
            thrown (updateSettings env newSettings s) = None \<and>
            thrown (markAsRead env i s) = None \<and>
            thrown (markAllAsRead env s) = None \<and>
            thrown (sendNotification env c s) = None)"
proof (intro conjI impI)
  assume "setItem_throws env"
  then show "updateSettings env newSettings s =
              Threw QuotaExceededError (s\<lparr>settings := spread (settings s) newSettings\<rparr>)"
    using assms by (simp add: updateSettings_def setItem_def Let_def)
next
  assume "setItem_throws env"
  then show "markAsRead env i s =
              Threw QuotaExceededError
                (s\<lparr>notifications :=
                      map (\<lambda>n. if nid n = i then n\<lparr>read := True\<rparr> else n) (notifications s),
                    unreadCount :=
                      unread (map (\<lambda>n. if nid n = i then n\<lparr>read := True\<rparr> else n)
                                (notifications s))\<rparr>)"
    using assms by (simp add: markAsRead_def setItem_def Let_def)
next
  assume "setItem_throws env"
  then show "markAllAsRead env s =
              Threw QuotaExceededError
                (s\<lparr>notifications := map (\<lambda>n. n\<lparr>read := True\<rparr>) (notifications s),
                    unreadCount := 0\<rparr>)"
    using assms by (simp add: markAllAsRead_def setItem_def Let_def)
next
  assume t: "setItem_throws env"
    and f: "\<forall>m\<in>set (notifications s). nid m \<noteq> fst (generateUniqueNotificationId env s)"
  let ?n = "new_notification env (fst (generateUniqueNotificationId env s)) c"
  have "findIndex (\<lambda>x. nid x = nid ?n) (notifications s) = - 1"
    using f by (simp add: findIndex_none new_notification_def)
  then have r: "sendNotification env c s =
      Threw QuotaExceededError
        (dispatch_push env ?n (s\<lparr>notificationCounter := notificationCounter s + 1\<rparr>))"
    using assms t
    by (simp add: sendNotification_def generateUniqueNotificationId_def Let_def
        ledger_updater_def setItem_def)
  show "thrown (sendNotification env c s) = Some QuotaExceededError"
    and "notifications (state_of (sendNotification env c s)) = notifications s"
    and "unreadCount (state_of (sendNotification env c s)) = unreadCount s"
    and "storage (state_of (sendNotification env c s)) = storage s"
    unfolding r by simp_all
next
  assume "\<not> setItem_throws env"
  then show "thrown (updateSettings env newSettings s) = None"
    using assms
    by (simp add: updateSettings_def setItem_def Let_def split_beta)
next
  assume "\<not> setItem_throws env"
  then show "thrown (markAsRead env i s) = None"
    using assms by (simp add: markAsRead_def setItem_def Let_def)
next
  assume "\<not> setItem_throws env"
  then show "thrown (markAllAsRead env s) = None"
    using assms by (simp add: markAllAsRead_def setItem_def Let_def)
next
  assume "\<not> setItem_throws env"
  then show "thrown (sendNotification env c s) = None"
    using assms
    by (simp add: sendNotification_def generateUniqueNotificationId_def Let_def
        ledger_updater_def setItem_def)
qed


theorem failing_write_ends_the_operation_witness:
  "user signed_in = Some ana \<and> setItem_throws full_disk_env \<and> \<not> setItem_throws example_env \<and>
   notifications signed_in = [] \<and>
   updateSettings full_disk_env enable_push signed_in =
     Threw QuotaExceededError (signed_in\<lparr>settings := spread (settings signed_in) enable_push\<rparr>) \<and>
   thrown (markAsRead full_disk_env ''n1'' signed_in) = Some QuotaExceededError \<and>
   thrown (markAllAsRead full_disk_env signed_in) = Some QuotaExceededError \<and>
   thrown (sendNotification full_disk_env reminder signed_in) = Some QuotaExceededError \<and>
   notifications (state_of (sendNotification full_disk_env reminder signed_in))
     = notifications signed_in \<and>
   storage (state_of (sendNotification full_disk_env reminder signed_in)) = storage signed_in \<and>
   thrown (updateSettings example_env enable_push signed_in) = None \<and>
   thrown (markAsRead example_env ''n1'' signed_in) = None \<and>
   thrown (markAllAsRead example_env signed_in) = None \<and>
   thrown (sendNotification example_env reminder signed_in) = None"
proof -
  have u: "user signed_in = Some ana" by code_simp
  have t: "setItem_throws full_disk_env" by code_simp
  have w: "\<not> setItem_throws example_env" by code_simp
  have e: "notifications signed_in = []" by code_simp
  have f: "\<forall>m\<in>set (notifications signed_in).
             nid m \<noteq> fst (generateUniqueNotificationId full_disk_env signed_in)"
    by (simp add: e)
  from failing_write_ends_the_operation [OF u, of full_disk_env enable_push "''n1''" reminder]
    failing_write_ends_the_operation [OF u, of example_env enable_push "''n1''" reminder] u t w e f
  show ?thesis by simp
qed


subsection \<open>Push and the platform's permission\<close>



lemma settings_load_notifications [simp]:
  "settings (load_notifications env u s) = settings s"
  by (simp add: load_notifications_def Let_def split: option.splits stored.splits sum.splits)





subsection \<open>The unread counter\<close>

lemma created_unread: "n \<in> set (created xs s) \<Longrightarrow> \<not> read n"
  by (induction xs arbitrary: s) (auto simp: split_beta Let_def new_notification_def)

lemma unread_created: "set l \<subseteq> set (created xs s) \<Longrightarrow> unread l = length l"
  unfolding unread_def
  by (rule arg_cong [where f = length], rule filter_True) (auto dest: created_unread)

text \<open>
  C1, evaluated where it breaks. Every send adds one to the unread counter, also when the
  ledger is cut back to 50 entries or the append is rejected. After 52 sends from the empty
  ledger the ledger holds 50 entries, all unread, and the counter says 52. After a reload
  whose stored entry carries the id drawn next, the send is rejected, the ledger holds one
  read entry, and the counter says 1. Before these sends counter and ledger agree.
\<close>

theorem unread_counter_drifts_from_ledger:
  "(\<exists>s'. forEach (\<lambda>(env, c). sendNotification env c) fifty_two_sends signed_in = Done s' \<and>
         length (notifications s') = 50 \<and> unread (notifications s') = 50 \<and>
         unreadCount s' = 52) \<and>
   unreadCount signed_in = unread (notifications signed_in) \<and>
   unreadCount reloaded = unread (notifications reloaded) \<and>
   notifications (state_of (sendNotification example_env reminder reloaded))
     = notifications reloaded \<and>
   unreadCount (state_of (sendNotification example_env reminder reloaded)) = 1 \<and>
   unread (notifications (state_of (sendNotification example_env reminder reloaded))) = 0"
proof -
  have d: "distinct (map nid (created fifty_two_sends signed_in))"
  proof (rule distinct_created_same_env)
    show "\<forall>x\<in>set fifty_two_sends. fst x = example_env" by (simp add: fifty_two_sends_def)
    show "\<forall>a b. Math_random example_env a = Math_random example_env b"
      by (simp add: example_env_def)
  qed
  have u: "user signed_in = Some ana" and e: "notifications signed_in = []"
    and w: "\<not> setItem_throws example_env" and z: "unreadCount signed_in = 0" by code_simp+
  have ok: "\<forall>x\<in>set fifty_two_sends. \<not> setItem_throws (fst x)"
    by (simp add: fifty_two_sends_def w)
  have n: "length fifty_two_sends = 52" by (simp add: fifty_two_sends_def)
  from run_of_fresh_sends [OF u ok d] e
  obtain s' where r: "forEach (\<lambda>(env, c). sendNotification env c) fifty_two_sends signed_in
      = Done s'"
    and l: "notifications s' = take 50 (rev (created fifty_two_sends signed_in))"
    and c: "unreadCount s' = unreadCount signed_in + length fifty_two_sends"
    by auto
  have len: "length (notifications s') = 50" unfolding l by (simp add: length_created n)
  have "set (notifications s') \<subseteq> set (created fifty_two_sends signed_in)"
    unfolding l using set_take_subset [of 50 "rev (created fifty_two_sends signed_in)"] by simp
  then have "unread (notifications s') = length (notifications s')" by (rule unread_created)
  with r len c z n
  have first: "\<exists>s'. forEach (\<lambda>(env, c). sendNotification env c) fifty_two_sends signed_in
         = Done s' \<and>
         length (notifications s') = 50 \<and> unread (notifications s') = 50 \<and>
         unreadCount s' = 52" by auto
  have rest: "unreadCount signed_in = unread (notifications signed_in)"
    "unreadCount reloaded = unread (notifications reloaded)"
    "notifications (state_of (sendNotification example_env reminder reloaded))
       = notifications reloaded"
    "unreadCount (state_of (sendNotification example_env reminder reloaded)) = 1"
    "unread (notifications (state_of (sendNotification example_env reminder reloaded))) = 0"
    by code_simp+
  from first rest show ?thesis by blast
qed


subsection \<open>Initialization and a change of user\<close>

lemma initialized_stays:
  "initialized s \<Longrightarrow> user_changed env u' s = Done (s\<lparr>user := u'\<rparr>)"
  by (simp add: user_changed_def initialize_effect_def split: option.splits)

text \<open>
  C4, evaluated where it breaks. Ana signs in and the provider initializes. She signs out
  and Bruno signs in: the effect runs and returns at its guard, because \<open>initialized\<close> is
  never reset. The state keeps Ana's settings and ledger, although the store holds other
  settings and a ledger for Bruno, which a provider mounted for Bruno would have loaded.
\<close>

theorem second_user_is_not_initialized:
  "initialized ana_session \<and>
   user_changed example_env (Some bruno) (state_of (user_changed example_env None ana_session))
     = Done (ana_session\<lparr>user := Some bruno\<rparr>) \<and>
   getItem (storage ana_session) (settings_key bruno) = Some brunos_settings \<and>
   getItem (storage ana_session) (notifications_key bruno)
     = Some (Notifications_blob [stale_entry]) \<and>
   email (settings (ana_session\<lparr>user := Some bruno\<rparr>)) \<and>
   teamUpdates (settings (ana_session\<lparr>user := Some bruno\<rparr>)) \<and>
   notifications (ana_session\<lparr>user := Some bruno\<rparr>) = [] \<and>
   \<not> email (settings (state_of (mount example_env (Some bruno) [] shared_browser))) \<and>
   notifications (state_of (mount example_env (Some bruno) [] shared_browser)) = [stale_entry]"
proof -
  have i: "initialized ana_session" by code_simp
  have "user_changed example_env None ana_session = Done (ana_session\<lparr>user := None\<rparr>)"
    using i by (rule initialized_stays)
  moreover have "user_changed example_env (Some bruno) (ana_session\<lparr>user := None\<rparr>)
      = Done (ana_session\<lparr>user := None, user := Some bruno\<rparr>)"
    using i by (intro initialized_stays) simp
  ultimately have sw: "user_changed example_env (Some bruno)
      (state_of (user_changed example_env None ana_session))
     = Done (ana_session\<lparr>user := Some bruno\<rparr>)" by simp
  have rest: "getItem (storage ana_session) (settings_key bruno) = Some brunos_settings"
    "getItem (storage ana_session) (notifications_key bruno)
       = Some (Notifications_blob [stale_entry])"
    "email (settings (ana_session\<lparr>user := Some bruno\<rparr>))"
    "teamUpdates (settings (ana_session\<lparr>user := Some bruno\<rparr>))"
    "notifications (ana_session\<lparr>user := Some bruno\<rparr>) = []"
    "\<not> email (settings (state_of (mount example_env (Some bruno) [] shared_browser)))"
    "notifications (state_of (mount example_env (Some bruno) [] shared_browser))
       = [stale_entry]"
    by code_simp+
  from i sw rest show ?thesis by blast
qed

end
